theory Spec2Isabelle
  imports Main "HOL-Library.Multiset"
begin

section \<open>Data model (shared/schema.ts)\<close>

text \<open>
  The enums of the schema. The category constructors stand for the strings
  \<open>'C'\<close>, \<open>'B'\<close>, \<open>'A'\<close>, \<open>'S'\<close>, \<open>'SS'\<close>; \<open>categoryName\<close> gives the string
  a category is stored as, which is what \<open>getRankingPlayers\<close> compares its
  filter argument with.
\<close>

datatype player_category = CatC | CatB | CatA | CatS | CatSS

datatype match_status = Pending | Approved | Rejected

datatype user_role = Player | Admin

fun categoryName :: "player_category \<Rightarrow> string" where
  "categoryName CatC = ''C''"
| "categoryName CatB = ''B''"
| "categoryName CatA = ''A''"
| "categoryName CatS = ''S''"
| "categoryName CatSS = ''SS''"

text \<open>
  Rows of the tables. Numbers are integers (\<open>serial\<close> and \<open>integer\<close> columns),
  timestamps are integers (milliseconds), a nullable column is an \<open>option\<close>.
  Field names are the source's; \<open>id\<close> and the names shared by two tables
  carry the table as a prefix.
\<close>

record User =
  user_id :: int
  username :: string
  password :: string
  fullName :: string
  email :: string
  user_photoUrl :: "string option"
  role :: user_role
  suspendedUntil :: "int option"

record Ranking =
  ranking_id :: int
  ranking_name :: string
  description :: "string option"
  isPublic :: bool
  requiresValidation :: bool
  ranking_createdById :: int

record PlayerRanking =
  pr_id :: int
  playerId :: int
  pr_rankingId :: int
  category :: player_category
  points :: int
  wins :: int
  losses :: int

record Location =
  location_id :: int
  location_name :: string
  address :: "string option"
  coordinates :: "(int \<times> int) option"
  location_createdById :: int

record SetScore =
  player1Score :: int
  player2Score :: int

record Score =
  sets :: "SetScore list"
  tiebreak :: "SetScore option"

text \<open>
  \<open>InsertMatch\<close> is the object the route hands to \<open>storage.createMatch\<close>
  (player1 resolved, status set); \<open>Match\<close> is that object with its \<open>id\<close>.
  \<open>MemStorage.createMatch\<close> never sets \<open>createdAt\<close>, and \<open>playedAt\<close> is
  whatever the request carried, so both are optional here.
\<close>

record InsertMatch =
  rankingId :: int
  player1Id :: int
  player2Id :: int
  locationId :: "int option"
  locationName :: "string option"
  photoUrl :: "string option"
  status :: match_status
  rejectionReason :: "string option"
  playedAt :: "int option"
  score :: Score

record Match = InsertMatch +
  match_id :: int
  createdAt :: "int option"

record PlayerWithRanking =
  pw_playerId :: int
  pw_username :: string
  pw_fullName :: string
  pw_photoUrl :: "string option"
  pw_category :: player_category
  pw_points :: int
  position :: nat
  pw_wins :: int
  pw_losses :: int
  isCurrentUser :: bool

section \<open>Score Evaluator (storage.ts, updatePlayerRankingsForMatch, first part)\<close>

text \<open>
  The \<open>for (const set of match.score.sets)\<close> loop, with the two counters
  \<open>player1Sets\<close> and \<open>player2Sets\<close> as the accumulator.
\<close>

fun countSets :: "SetScore list \<Rightarrow> nat \<times> nat \<Rightarrow> nat \<times> nat" where
  "countSets [] (player1Sets, player2Sets) = (player1Sets, player2Sets)"
| "countSets (x # xs) (player1Sets, player2Sets) =
     (if player1Score x > player2Score x then countSets xs (player1Sets + 1, player2Sets)
      else if player2Score x > player1Score x then countSets xs (player1Sets, player2Sets + 1)
      else countSets xs (player1Sets, player2Sets))"

definition player1IsWinner :: "Score \<Rightarrow> bool" where
  "player1IsWinner sc =
     (case countSets (sets sc) (0, 0) of (player1Sets, player2Sets) \<Rightarrow> player1Sets > player2Sets)"

text \<open>The set counts in the words of the specification.\<close>

definition setsWonBy1 :: "Score \<Rightarrow> nat" where
  "setsWonBy1 sc = length (filter (\<lambda>x. player1Score x > player2Score x) (sets sc))"

definition setsWonBy2 :: "Score \<Rightarrow> nat" where
  "setsWonBy2 sc = length (filter (\<lambda>x. player2Score x > player1Score x) (sets sc))"

section \<open>The in-memory store (storage.ts, MemStorage)\<close>

text \<open>
  A JavaScript \<open>Map\<close> iterates in insertion order, and \<open>set\<close> on a key that is
  present replaces the value where it stands. \<open>playerRankings\<close> is read through
  \<open>values()\<close>, so it is a list of key-value pairs in insertion order; the other
  maps are only read by key in the operations below and are partial functions.
\<close>

fun mapSet :: "(int \<times> 'v) list \<Rightarrow> int \<Rightarrow> 'v \<Rightarrow> (int \<times> 'v) list" where
  "mapSet [] k v = [(k, v)]"
| "mapSet ((k', v') # kvs) k v =
     (if k' = k then (k, v) # kvs else (k', v') # mapSet kvs k v)"

definition mapGet :: "(int \<times> 'v) list \<Rightarrow> int \<Rightarrow> 'v option" where
  "mapGet kvs k = map_of kvs k"

definition mapValues :: "(int \<times> 'v) list \<Rightarrow> 'v list" where
  "mapValues kvs = map snd kvs"

record Store =
  users :: "int \<rightharpoonup> User"
  rankings :: "int \<rightharpoonup> Ranking"
  playerRankings :: "(int \<times> PlayerRanking) list"
  locations :: "int \<rightharpoonup> Location"
  matches :: "int \<rightharpoonup> Match"
  userIdCounter :: int
  rankingIdCounter :: int
  playerRankingIdCounter :: int
  locationIdCounter :: int
  matchIdCounter :: int

text \<open>
  The default administrator, and the store the constructor leaves: empty maps,
  counters at 1, then \<open>createUser\<close> for the administrator.
\<close>

definition adminUser :: User where
  "adminUser = \<lparr>user_id = 1, username = ''admin'', password = ''adminpass'',
     fullName = ''Administrator'', email = ''admin@tennisrank.com'', user_photoUrl = None,
     role = Admin, suspendedUntil = None\<rparr>"

definition initialStore :: Store where
  "initialStore =
     \<lparr>users = [1 \<mapsto> adminUser],
      rankings = Map.empty,
      playerRankings = [],
      locations = Map.empty,
      matches = Map.empty,
      userIdCounter = 2, rankingIdCounter = 1, playerRankingIdCounter = 1,
      locationIdCounter = 1, matchIdCounter = 1\<rparr>"

definition getRanking :: "Store \<Rightarrow> int \<Rightarrow> Ranking option" where
  "getRanking s i = rankings s i"

definition getPlayerRanking :: "Store \<Rightarrow> int \<Rightarrow> int \<Rightarrow> PlayerRanking option" where
  "getPlayerRanking s pid rid =
     find (\<lambda>pr. playerId pr = pid \<and> pr_rankingId pr = rid) (mapValues (playerRankings s))"

text \<open>
  \<open>createPlayerRanking\<close> takes the entry without its id (the fields of
  \<open>InsertPlayerRanking\<close>) and stores \<open>{ ...insertPlayerRanking, id }\<close>.
\<close>

definition createPlayerRanking ::
  "Store \<Rightarrow> int \<Rightarrow> int \<Rightarrow> player_category \<Rightarrow> int \<Rightarrow> int \<Rightarrow> int \<Rightarrow> PlayerRanking \<times> Store" where
  "createPlayerRanking s pid rid cat pts w l =
     (let i = playerRankingIdCounter s;
          playerRanking = \<lparr>pr_id = i, playerId = pid, pr_rankingId = rid, category = cat,
                           points = pts, wins = w, losses = l\<rparr>
      in (playerRanking,
          s\<lparr>playerRankingIdCounter := i + 1,
            playerRankings := mapSet (playerRankings s) i playerRanking\<rparr>))"

text \<open>
  \<open>updatePlayerRanking(id, data)\<close> stores \<open>{ ...playerRanking, ...data }\<close>. The
  partial object \<open>data\<close> is the function that overrides the fields it carries.
\<close>

definition updatePlayerRanking ::
  "Store \<Rightarrow> int \<Rightarrow> (PlayerRanking \<Rightarrow> PlayerRanking) \<Rightarrow> PlayerRanking option \<times> Store" where
  "updatePlayerRanking s i data =
     (case mapGet (playerRankings s) i of
        None \<Rightarrow> (None, s)
      | Some playerRanking \<Rightarrow>
          (let updatedPlayerRanking = data playerRanking
           in (Some updatedPlayerRanking,
               s\<lparr>playerRankings := mapSet (playerRankings s) i updatedPlayerRanking\<rparr>)))"

definition createMatch :: "Store \<Rightarrow> InsertMatch \<Rightarrow> Match \<times> Store" where
  "createMatch s insertMatch =
     (let i = matchIdCounter s;
          m = \<lparr>rankingId = rankingId insertMatch, player1Id = player1Id insertMatch,
               player2Id = player2Id insertMatch, locationId = locationId insertMatch,
               locationName = locationName insertMatch, photoUrl = photoUrl insertMatch,
               status = status insertMatch, rejectionReason = rejectionReason insertMatch,
               playedAt = playedAt insertMatch, score = score insertMatch,
               match_id = i, createdAt = None\<rparr>
      in (m, s\<lparr>matchIdCounter := i + 1, matches := (matches s)(i \<mapsto> m)\<rparr>))"

section \<open>Ranking Ledger (storage.ts, updatePlayerRankingsForMatch)\<close>

text \<open>
  Both entries are read before either is written. Each existing entry gets its
  points, wins and losses by one \<open>updatePlayerRanking\<close> and, when a branch of the
  chain fires, its category by a second one; the conditions read the entry as it
  was fetched at the start.
\<close>

definition updatePlayerRankingsForMatch :: "Store \<Rightarrow> Match \<Rightarrow> Store" where
  "updatePlayerRankingsForMatch s m =
     (let p1w = player1IsWinner (score m);
          player1Ranking = getPlayerRanking s (player1Id m) (rankingId m);
          player2Ranking = getPlayerRanking s (player2Id m) (rankingId m);
          s1 =
            (case player1Ranking of
               None \<Rightarrow>
                 snd (createPlayerRanking s (player1Id m) (rankingId m) CatC
                        (if p1w then 10 else 0) (if p1w then 1 else 0) (if p1w then 0 else 1))
             | Some pr \<Rightarrow>
                 (let pts = points pr + (if p1w then 10 else 0);
                      w = wins pr + (if p1w then 1 else 0);
                      l = losses pr + (if p1w then 0 else 1);
                      s' = snd (updatePlayerRanking s (pr_id pr)
                                  (\<lambda>r. r\<lparr>points := pts, wins := w, losses := l\<rparr>))
                  in if pts \<ge> 1000 \<and> category pr \<noteq> CatSS
                       then snd (updatePlayerRanking s' (pr_id pr) (\<lambda>r. r\<lparr>category := CatSS\<rparr>))
                     else if pts \<ge> 500 \<and> category pr \<noteq> CatS \<and> category pr \<noteq> CatSS
                       then snd (updatePlayerRanking s' (pr_id pr) (\<lambda>r. r\<lparr>category := CatS\<rparr>))
                     else if pts \<ge> 250 \<and> category pr = CatC
                       then snd (updatePlayerRanking s' (pr_id pr) (\<lambda>r. r\<lparr>category := CatB\<rparr>))
                     else if pts \<ge> 100 \<and> category pr = CatB
                       then snd (updatePlayerRanking s' (pr_id pr) (\<lambda>r. r\<lparr>category := CatA\<rparr>))
                     else s'));
          s2 =
            (case player2Ranking of
               None \<Rightarrow>
                 snd (createPlayerRanking s1 (player2Id m) (rankingId m) CatC
                        (if p1w then 0 else 10) (if p1w then 0 else 1) (if p1w then 1 else 0))
             | Some pr \<Rightarrow>
                 (let pts = points pr + (if p1w then 0 else 10);
                      w = wins pr + (if p1w then 0 else 1);
                      l = losses pr + (if p1w then 1 else 0);
                      s' = snd (updatePlayerRanking s1 (pr_id pr)
                                  (\<lambda>r. r\<lparr>points := pts, wins := w, losses := l\<rparr>))
                  in if pts \<ge> 1000 \<and> category pr \<noteq> CatSS
                       then snd (updatePlayerRanking s' (pr_id pr) (\<lambda>r. r\<lparr>category := CatSS\<rparr>))
                     else if pts \<ge> 500 \<and> category pr \<noteq> CatS \<and> category pr \<noteq> CatSS
                       then snd (updatePlayerRanking s' (pr_id pr) (\<lambda>r. r\<lparr>category := CatS\<rparr>))
                     else if pts \<ge> 250 \<and> category pr = CatC
                       then snd (updatePlayerRanking s' (pr_id pr) (\<lambda>r. r\<lparr>category := CatB\<rparr>))
                     else if pts \<ge> 100 \<and> category pr = CatB
                       then snd (updatePlayerRanking s' (pr_id pr) (\<lambda>r. r\<lparr>category := CatA\<rparr>))
                     else s'))
      in s2)"

section \<open>Match Validation Workflow (storage.ts, validateMatch)\<close>

text \<open>
  \<open>rejectionReason || 'No reason provided'\<close>: the right operand is taken when the
  left one is \<open>undefined\<close> or the empty string.
\<close>

definition noReasonProvided :: string where
  "noReasonProvided = ''No reason provided''"

definition reasonOrDefault :: "string option \<Rightarrow> string" where
  "reasonOrDefault reason =
     (case reason of
        None \<Rightarrow> noReasonProvided
      | Some r \<Rightarrow> if r = [] then noReasonProvided else r)"

definition validateMatch :: "Store \<Rightarrow> int \<Rightarrow> bool \<Rightarrow> string option \<Rightarrow> Match option \<times> Store" where
  "validateMatch s matchId isApproved reason =
     (case matches s matchId of
        None \<Rightarrow> (None, s)
      | Some m \<Rightarrow>
          (let st = (if isApproved then Approved else Rejected);
               updatedMatch =
                 m\<lparr>status := st,
                   rejectionReason :=
                     (if isApproved then None else Some (reasonOrDefault reason))\<rparr>;
               s' = s\<lparr>matches := (matches s)(matchId \<mapsto> updatedMatch)\<rparr>
           in (Some updatedMatch,
               if isApproved then updatePlayerRankingsForMatch s' updatedMatch else s')))"

section \<open>Listing a ranking (storage.ts, getRankingPlayers)\<close>

text \<open>
  The object pushed for an entry whose player has a user record; \<open>pos\<close> is the
  1-based position \<open>i + 1\<close>.
\<close>

definition playerWithRanking :: "User \<Rightarrow> PlayerRanking \<Rightarrow> nat \<Rightarrow> PlayerWithRanking" where
  "playerWithRanking user pr pos =
     \<lparr>pw_playerId = user_id user, pw_username = username user, pw_fullName = fullName user,
      pw_photoUrl = user_photoUrl user, pw_category = category pr, pw_points = points pr,
      position = pos, pw_wins = wins pr, pw_losses = losses pr, isCurrentUser = False\<rparr>"

text \<open>
  The \<open>for\<close> loop over the sorted array from index \<open>i\<close> on, with \<open>result\<close> as
  the accumulator; an entry whose player is not in \<open>users\<close> is skipped but
  still counts for the index.
\<close>

fun collectPlayers ::
  "(int \<rightharpoonup> User) \<Rightarrow> PlayerRanking list \<Rightarrow> nat \<Rightarrow> PlayerWithRanking list \<Rightarrow> PlayerWithRanking list" where
  "collectPlayers us [] i result = result"
| "collectPlayers us (pr # prs) i result =
     (case us (playerId pr) of
        Some user \<Rightarrow> collectPlayers us prs (i + 1) (result @ [playerWithRanking user pr (i + 1)])
      | None \<Rightarrow> collectPlayers us prs (i + 1) result)"

text \<open>
  \<open>if (category)\<close> holds for a string that is present and not empty.
  \<open>Array.prototype.sort\<close> is stable and the comparator \<open>b.points - a.points\<close>
  orders by points descending; \<open>sort_key\<close> on the negated points is the stable
  sort with that order.
\<close>

definition getRankingPlayers :: "Store \<Rightarrow> int \<Rightarrow> string option \<Rightarrow> PlayerWithRanking list" where
  "getRankingPlayers s rid cat =
     (let inRanking = filter (\<lambda>pr. pr_rankingId pr = rid) (mapValues (playerRankings s));
          inCategory =
            (case cat of
               None \<Rightarrow> inRanking
             | Some c \<Rightarrow>
                 if c \<noteq> [] then filter (\<lambda>pr. categoryName (category pr) = c) inRanking
                 else inRanking);
          ordered = sort_key (\<lambda>pr. - points pr) inCategory
      in collectPlayers (users s) ordered 0 [])"

text \<open>
  The listing in the words of the specification: the ledger entries of the
  ranking, restricted to the category when a filter is given, ordered by points
  descending, ties in insertion order (the stable sort of the entries in
  insertion order).
\<close>

definition selectedEntries :: "Store \<Rightarrow> int \<Rightarrow> player_category option \<Rightarrow> PlayerRanking list" where
  "selectedEntries s rid cf =
     filter (\<lambda>pr. pr_rankingId pr = rid \<and> (case cf of None \<Rightarrow> True | Some c \<Rightarrow> category pr = c))
       (mapValues (playerRankings s))"

definition listLedgerEntries_spec :: "Store \<Rightarrow> int \<Rightarrow> player_category option \<Rightarrow> PlayerRanking list" where
  "listLedgerEntries_spec s rid cf = sort_key (\<lambda>pr. - points pr) (selectedEntries s rid cf)"

text \<open>
  What an element of the listing shows of its ledger entry, and the same data
  read off the entry.
\<close>

definition shownEntry :: "PlayerWithRanking \<Rightarrow> player_category \<times> int \<times> int \<times> int" where
  "shownEntry p = (pw_category p, pw_points p, pw_wins p, pw_losses p)"

definition entryData :: "PlayerRanking \<Rightarrow> player_category \<times> int \<times> int \<times> int" where
  "entryData pr = (category pr, points pr, wins pr, losses pr)"

section \<open>Recording a match (routes.ts, POST /api/matches)\<close>

text \<open>
  \<open>matchData\<close> is the request body after \<open>validateRequest\<close>; \<open>None\<close> as the body
  stands for a body the schema rejects (the exception is caught and answered
  with 400). \<open>player1Id\<close> may be missing or 0, which \<open>!matchData.player1Id\<close>
  treats alike. The status of the body is overwritten by the route and is not
  part of the record.
\<close>

record MatchRequest =
  req_rankingId :: int
  req_player1Id :: "int option"
  req_player2Id :: int
  req_locationId :: "int option"
  req_locationName :: "string option"
  req_photoUrl :: "string option"
  req_rejectionReason :: "string option"
  req_playedAt :: "int option"
  req_score :: Score

datatype message =
  InvalidRequest | AccountSuspended | OnlyOwnMatches | CannotPlayYourself | RankingNotFound

datatype response = Failure nat message | Created Match

definition suspendedNow :: "User \<Rightarrow> int \<Rightarrow> bool" where
  "suspendedNow user now = (case suspendedUntil user of None \<Rightarrow> False | Some t \<Rightarrow> t > now)"

definition resolvePlayer1 :: "User \<Rightarrow> int option \<Rightarrow> message + int" where
  "resolvePlayer1 user p1 =
     (case p1 of
        None \<Rightarrow> Inr (user_id user)
      | Some n \<Rightarrow>
          if n = 0 then Inr (user_id user)
          else if n \<noteq> user_id user \<and> role user \<noteq> Admin then Inl OnlyOwnMatches
          else Inr n)"

definition postMatches :: "Store \<Rightarrow> int \<Rightarrow> User \<Rightarrow> MatchRequest option \<Rightarrow> response \<times> Store" where
  "postMatches s now user body =
     (case body of
        None \<Rightarrow> (Failure 400 InvalidRequest, s)
      | Some matchData \<Rightarrow>
          if suspendedNow user now then (Failure 403 AccountSuspended, s)
          else
            (case resolvePlayer1 user (req_player1Id matchData) of
               Inl msg \<Rightarrow> (Failure 403 msg, s)
             | Inr p1 \<Rightarrow>
                 if p1 = req_player2Id matchData then (Failure 400 CannotPlayYourself, s)
                 else
                   (case getRanking s (req_rankingId matchData) of
                      None \<Rightarrow> (Failure 404 RankingNotFound, s)
                    | Some ranking \<Rightarrow>
                        (let st = (if requiresValidation ranking then Pending else Approved);
                             created =
                               createMatch s
                                 \<lparr>rankingId = req_rankingId matchData, player1Id = p1,
                                  player2Id = req_player2Id matchData,
                                  locationId = req_locationId matchData,
                                  locationName = req_locationName matchData,
                                  photoUrl = req_photoUrl matchData, status = st,
                                  rejectionReason = req_rejectionReason matchData,
                                  playedAt = req_playedAt matchData,
                                  score = req_score matchData\<rparr>;
                             m = fst created;
                             s1 = snd created
                         in (Created m,
                             if status m = Approved
                             then snd (validateMatch s1 (match_id m) True None)
                             else s1)))))"

section \<open>Notions of the specification\<close>

text \<open>
  The winner and the loser of a match as the Score Evaluator's boolean decides
  them, and the category re-evaluation of the specification (section 4.2, step
  4): four branches, tried in this order against the category before the call.
\<close>

definition winnerId :: "Match \<Rightarrow> int" where
  "winnerId m = (if player1IsWinner (score m) then player1Id m else player2Id m)"

definition loserId :: "Match \<Rightarrow> int" where
  "loserId m = (if player1IsWinner (score m) then player2Id m else player1Id m)"

definition categoryAfter_spec :: "int \<Rightarrow> player_category \<Rightarrow> player_category" where
  "categoryAfter_spec pts cat =
     (if pts \<ge> 1000 \<and> cat \<noteq> CatSS then CatSS
      else if pts \<ge> 500 \<and> cat \<noteq> CatS \<and> cat \<noteq> CatSS then CatS
      else if pts \<ge> 250 \<and> cat = CatC then CatB
      else if pts \<ge> 100 \<and> cat = CatB then CatA
      else cat)"

section \<open>Example data\<close>

text \<open>
  A store with the administrator, one player, a ranking that approves at once
  (1) and one that requires validation (2), and ledger entries in ranking 1:
  the administrator at 240 points in category B, the player at 990 points in
  category C, and an entry for player 7, who has no user record.
\<close>

definition playerUser :: User where
  "playerUser = \<lparr>user_id = 2, username = ''ana'', password = ''pw'',
     fullName = ''Ana'', email = ''ana@example.org'', user_photoUrl = None,
     role = Player, suspendedUntil = None\<rparr>"

definition entry1 :: PlayerRanking where
  "entry1 = \<lparr>pr_id = 1, playerId = 1, pr_rankingId = 1, category = CatB,
     points = 240, wins = 24, losses = 3\<rparr>"

definition entry2 :: PlayerRanking where
  "entry2 = \<lparr>pr_id = 2, playerId = 2, pr_rankingId = 1, category = CatC,
     points = 990, wins = 99, losses = 0\<rparr>"

definition entry3 :: PlayerRanking where
  "entry3 = \<lparr>pr_id = 3, playerId = 7, pr_rankingId = 1, category = CatC,
     points = 990, wins = 99, losses = 1\<rparr>"

definition openRanking :: Ranking where
  "openRanking = \<lparr>ranking_id = 1, ranking_name = ''Open'', description = None,
     isPublic = True, requiresValidation = False, ranking_createdById = 1\<rparr>"

definition clubRanking :: Ranking where
  "clubRanking = \<lparr>ranking_id = 2, ranking_name = ''Club'', description = None,
     isPublic = True, requiresValidation = True, ranking_createdById = 1\<rparr>"

definition exampleStore :: Store where
  "exampleStore =
     \<lparr>users = [1 \<mapsto> adminUser, 2 \<mapsto> playerUser],
      rankings = [1 \<mapsto> openRanking, 2 \<mapsto> clubRanking],
      playerRankings = [(1, entry1), (2, entry2), (3, entry3)],
      locations = Map.empty,
      matches = Map.empty,
      userIdCounter = 3, rankingIdCounter = 3, playerRankingIdCounter = 4,
      locationIdCounter = 1, matchIdCounter = 1\<rparr>"

text \<open>
  The initial store after the administrator has created ranking 1, and the
  store after the administrator has then recorded a win against player 7, an id
  without a user record (the route does not look player 2 up).
\<close>

definition freshStore :: Store where
  "freshStore = initialStore\<lparr>rankings := [1 \<mapsto> openRanking], rankingIdCounter := 2\<rparr>"

definition exampleScore :: Score where
  "exampleScore = \<lparr>sets = [\<lparr>player1Score = 6, player2Score = 3\<rparr>,
                             \<lparr>player1Score = 6, player2Score = 4\<rparr>], tiebreak = None\<rparr>"

definition exampleMatch :: "int \<Rightarrow> int \<Rightarrow> Match" where
  "exampleMatch p1 p2 =
     \<lparr>rankingId = 1, player1Id = p1, player2Id = p2, locationId = None, locationName = None,
      photoUrl = None, status = Pending, rejectionReason = None, playedAt = None,
      score = exampleScore, match_id = 1, createdAt = None\<rparr>"

definition exampleStoreWithMatch :: Store where
  "exampleStoreWithMatch = exampleStore\<lparr>matches := [1 \<mapsto> exampleMatch 1 2], matchIdCounter := 2\<rparr>"

definition exampleRequest :: "int \<Rightarrow> int \<Rightarrow> MatchRequest" where
  "exampleRequest rid p2 =
     \<lparr>req_rankingId = rid, req_player1Id = None, req_player2Id = p2, req_locationId = None,
      req_locationName = None, req_photoUrl = None, req_rejectionReason = None,
      req_playedAt = None, req_score = exampleScore\<rparr>"

definition storeAfterUnknownOpponent :: Store where
  "storeAfterUnknownOpponent = snd (postMatches freshStore 0 adminUser (Some (exampleRequest 1 7)))"

section \<open>Auxiliary notions for the ledger proofs\<close>

text \<open>
  The representation invariant of \<open>playerRankings\<close>: keys are distinct (it is a
  \<open>Map\<close>), every entry is stored under its own id, and every id was handed out
  by the counter. The constructor establishes it and \<open>createPlayerRanking\<close>
  and the updates of \<open>updatePlayerRankingsForMatch\<close> keep it.
\<close>

definition ledgerWf :: "Store \<Rightarrow> bool" where
  "ledgerWf s \<longleftrightarrow>
     distinct (map fst (playerRankings s)) \<and>
     list_all (\<lambda>(k, pr). pr_id pr = k \<and> k < playerRankingIdCounter s) (playerRankings s)"

text \<open>
  One of the two blocks of \<open>updatePlayerRankingsForMatch\<close>, with the entry that
  was read at the start and the player's result as parameters. It is used to
  treat both blocks by one argument; \<open>updatePlayerRankingsForMatch_steps\<close>
  shows that the procedure is these two blocks in sequence.
\<close>

definition ledgerStep :: "Store \<Rightarrow> PlayerRanking option \<Rightarrow> int \<Rightarrow> int \<Rightarrow> bool \<Rightarrow> Store" where
  "ledgerStep s found pid rid won =
     (case found of
        None \<Rightarrow>
          snd (createPlayerRanking s pid rid CatC
                 (if won then 10 else 0) (if won then 1 else 0) (if won then 0 else 1))
      | Some pr \<Rightarrow>
          (let pts = points pr + (if won then 10 else 0);
               w = wins pr + (if won then 1 else 0);
               l = losses pr + (if won then 0 else 1);
               s' = snd (updatePlayerRanking s (pr_id pr)
                           (\<lambda>r. r\<lparr>points := pts, wins := w, losses := l\<rparr>))
           in if pts \<ge> 1000 \<and> category pr \<noteq> CatSS
                then snd (updatePlayerRanking s' (pr_id pr) (\<lambda>r. r\<lparr>category := CatSS\<rparr>))
              else if pts \<ge> 500 \<and> category pr \<noteq> CatS \<and> category pr \<noteq> CatSS
                then snd (updatePlayerRanking s' (pr_id pr) (\<lambda>r. r\<lparr>category := CatS\<rparr>))
              else if pts \<ge> 250 \<and> category pr = CatC
                then snd (updatePlayerRanking s' (pr_id pr) (\<lambda>r. r\<lparr>category := CatB\<rparr>))
              else if pts \<ge> 100 \<and> category pr = CatB
                then snd (updatePlayerRanking s' (pr_id pr) (\<lambda>r. r\<lparr>category := CatA\<rparr>))
              else s'))"

text \<open>The entry a block leaves for its player: created, or the fetched one moved on.\<close>

definition entryAfter :: "int \<Rightarrow> PlayerRanking option \<Rightarrow> int \<Rightarrow> int \<Rightarrow> bool \<Rightarrow> PlayerRanking" where
  "entryAfter counter found pid rid won =
     (case found of
        None \<Rightarrow>
          \<lparr>pr_id = counter, playerId = pid, pr_rankingId = rid, category = CatC,
           points = (if won then 10 else 0), wins = (if won then 1 else 0),
           losses = (if won then 0 else 1)\<rparr>
      | Some pr \<Rightarrow>
          (let pts = points pr + (if won then 10 else 0)
           in pr\<lparr>points := pts,
                 wins := wins pr + (if won then 1 else 0),
                 losses := losses pr + (if won then 0 else 1),
                 category :=
                   (if pts \<ge> 1000 \<and> category pr \<noteq> CatSS then CatSS
                    else if pts \<ge> 500 \<and> category pr \<noteq> CatS \<and> category pr \<noteq> CatSS then CatS
                    else if pts \<ge> 250 \<and> category pr = CatC then CatB
                    else if pts \<ge> 100 \<and> category pr = CatB then CatA
                    else category pr)\<rparr>))"

section \<open>Score Evaluator: results\<close>

lemma countSets_eq:
  "countSets xs (a, b) =
     (a + length (filter (\<lambda>x. player1Score x > player2Score x) xs),
      b + length (filter (\<lambda>x. player2Score x > player1Score x) xs))"
  by (induction xs arbitrary: a b) auto

text \<open>
  C4. For every score, \<open>player1IsWinner\<close> is true exactly when player 1 has
  strictly more sets with the strictly greater game count than player 2 has;
  a set with equal game counts counts for neither side; the tiebreak pair is
  ignored; equal set counts, and a score without sets, give false.
\<close>

theorem player1IsWinner_correct:
  "(player1IsWinner sc \<longleftrightarrow> setsWonBy1 sc > setsWonBy2 sc)
   \<and> player1IsWinner (sc\<lparr>tiebreak := t\<rparr>) = player1IsWinner sc
   \<and> (setsWonBy1 sc = setsWonBy2 sc \<longrightarrow> \<not> player1IsWinner sc)
   \<and> (sets sc = [] \<longrightarrow> \<not> player1IsWinner sc)
   \<and> setsWonBy1 sc + setsWonBy2 sc
       + length (filter (\<lambda>x. player1Score x = player2Score x) (sets sc)) = length (sets sc)"
proof -
  have w: "player1IsWinner sc \<longleftrightarrow> setsWonBy1 sc > setsWonBy2 sc" for sc
    by (simp add: player1IsWinner_def setsWonBy1_def setsWonBy2_def countSets_eq)
  have part: "length (filter (\<lambda>x. player1Score x > player2Score x) xs)
      + length (filter (\<lambda>x. player2Score x > player1Score x) xs)
      + length (filter (\<lambda>x. player1Score x = player2Score x) xs) = length xs"
    for xs :: "SetScore list"
    by (induction xs) auto
  show ?thesis
    using w [of sc] w [of "sc\<lparr>tiebreak := t\<rparr>"] part [of "sets sc"]
    by (simp add: setsWonBy1_def setsWonBy2_def)
qed

theorem player1IsWinner_correct_witness:
  "\<not> player1IsWinner \<lparr>sets = [\<lparr>player1Score = 6, player2Score = 3\<rparr>,
                                \<lparr>player1Score = 4, player2Score = 6\<rparr>], tiebreak = None\<rparr>
   \<and> \<not> player1IsWinner \<lparr>sets = [], tiebreak = None\<rparr>"
  using player1IsWinner_correct
    [of "\<lparr>sets = [\<lparr>player1Score = 6, player2Score = 3\<rparr>,
                  \<lparr>player1Score = 4, player2Score = 6\<rparr>], tiebreak = None\<rparr>" None]
    player1IsWinner_correct [of "\<lparr>sets = [], tiebreak = None\<rparr>" None]
  by (simp add: setsWonBy1_def setsWonBy2_def)

section \<open>The ledger as a map: lemmas\<close>

lemma map_replace_absent:
  "k \<notin> fst ` set kvs \<Longrightarrow> map (\<lambda>(k', x). if k' = k then (k, v) else (k', x)) kvs = kvs"
  by (induction kvs) auto

lemma mapSet_present:
  "k \<in> fst ` set kvs \<Longrightarrow> distinct (map fst kvs) \<Longrightarrow>
   mapSet kvs k v = map (\<lambda>(k', x). if k' = k then (k, v) else (k', x)) kvs"
proof (induction kvs)
  case Nil
  then show ?case by simp
next
  case (Cons a kvs)
  show ?case
  proof (cases "fst a = k")
    case True
    with Cons.prems have "k \<notin> fst ` set kvs" by auto
    from map_replace_absent [OF this, of v] True show ?thesis
      by (cases a) simp
  next
    case False
    with Cons show ?thesis by (cases a) auto
  qed
qed

lemma mapSet_absent: "k \<notin> fst ` set kvs \<Longrightarrow> mapSet kvs k v = kvs @ [(k, v)]"
  by (induction kvs) auto

lemma ledger_entry_key:
  assumes "ledgerWf s" "(k, pr) \<in> set (playerRankings s)"
  shows "pr_id pr = k" "k < playerRankingIdCounter s"
  using assms by (auto simp: ledgerWf_def list_all_iff)

lemma ledger_value_mem:
  assumes "ledgerWf s" "pr \<in> set (mapValues (playerRankings s))"
  shows "(pr_id pr, pr) \<in> set (playerRankings s)"
  using assms ledger_entry_key(1) [OF assms(1)] by (force simp: mapValues_def)

lemma ledger_mapGet:
  assumes "ledgerWf s" "pr \<in> set (mapValues (playerRankings s))"
  shows "mapGet (playerRankings s) (pr_id pr) = Some pr"
proof -
  have "distinct (map fst (playerRankings s))"
    using assms(1) by (simp add: ledgerWf_def)
  from map_of_is_SomeI [OF this ledger_value_mem [OF assms]]
  show ?thesis by (simp add: mapGet_def)
qed

lemma ledger_id_inj:
  assumes "ledgerWf s" "x \<in> set (mapValues (playerRankings s))"
    "y \<in> set (mapValues (playerRankings s))" "pr_id x = pr_id y"
  shows "x = y"
proof -
  have "Some x = mapGet (playerRankings s) (pr_id x)"
    using ledger_mapGet [OF assms(1,2)] by simp
  also have "\<dots> = mapGet (playerRankings s) (pr_id y)"
    by (simp only: assms(4))
  also have "\<dots> = Some y"
    by (rule ledger_mapGet [OF assms(1,3)])
  finally show ?thesis by simp
qed

lemma find_map_comp: "find P (map g xs) = map_option g (find (P \<circ> g) xs)"
  by (induction xs) auto


lemma updatePlayerRanking_frame:
  "users (snd (updatePlayerRanking s k f)) = users s"
  "rankings (snd (updatePlayerRanking s k f)) = rankings s"
  "locations (snd (updatePlayerRanking s k f)) = locations s"
  "matches (snd (updatePlayerRanking s k f)) = matches s"
  "userIdCounter (snd (updatePlayerRanking s k f)) = userIdCounter s"
  "rankingIdCounter (snd (updatePlayerRanking s k f)) = rankingIdCounter s"
  "playerRankingIdCounter (snd (updatePlayerRanking s k f)) = playerRankingIdCounter s"
  "locationIdCounter (snd (updatePlayerRanking s k f)) = locationIdCounter s"
  "matchIdCounter (snd (updatePlayerRanking s k f)) = matchIdCounter s"
  by (simp_all add: updatePlayerRanking_def Let_def split: option.splits)

lemma createPlayerRanking_frame:
  "users (snd (createPlayerRanking s p r c pts w l)) = users s"
  "rankings (snd (createPlayerRanking s p r c pts w l)) = rankings s"
  "locations (snd (createPlayerRanking s p r c pts w l)) = locations s"
  "matches (snd (createPlayerRanking s p r c pts w l)) = matches s"
  "userIdCounter (snd (createPlayerRanking s p r c pts w l)) = userIdCounter s"
  "rankingIdCounter (snd (createPlayerRanking s p r c pts w l)) = rankingIdCounter s"
  "locationIdCounter (snd (createPlayerRanking s p r c pts w l)) = locationIdCounter s"
  "matchIdCounter (snd (createPlayerRanking s p r c pts w l)) = matchIdCounter s"
  by (simp_all add: createPlayerRanking_def Let_def)

lemma updatePlayerRanking_entries:
  assumes wf: "ledgerWf s" and mem: "pr \<in> set (mapValues (playerRankings s))"
  shows "playerRankings (snd (updatePlayerRanking s (pr_id pr) f)) =
         map (\<lambda>(k, x). if k = pr_id pr then (pr_id pr, f pr) else (k, x)) (playerRankings s)"
proof -
  have present: "pr_id pr \<in> fst ` set (playerRankings s)"
    using ledger_value_mem [OF wf mem] by (rule rev_image_eqI) simp
  have dist: "distinct (map fst (playerRankings s))"
    using wf by (simp add: ledgerWf_def)
  show ?thesis
    by (simp add: updatePlayerRanking_def Let_def ledger_mapGet [OF wf mem]
        mapSet_present [OF present dist])
qed

lemma updatePlayerRanking_values:
  assumes wf: "ledgerWf s" and mem: "pr \<in> set (mapValues (playerRankings s))"
  shows "mapValues (playerRankings (snd (updatePlayerRanking s (pr_id pr) f))) =
         map (\<lambda>x. if pr_id x = pr_id pr then f pr else x) (mapValues (playerRankings s))"
proof -
  have "map snd (map (\<lambda>(k, x). if k = pr_id pr then (pr_id pr, f pr) else (k, x)) (playerRankings s))
        = map (\<lambda>x. if pr_id x = pr_id pr then f pr else x) (map snd (playerRankings s))"
    using ledger_entry_key(1) [OF wf] by (auto simp: split_def)
  then show ?thesis
    by (simp only: updatePlayerRanking_entries [OF wf mem] mapValues_def)
qed

lemma updatePlayerRanking_wf:
  assumes wf: "ledgerWf s" and mem: "pr \<in> set (mapValues (playerRankings s))"
    and keep: "pr_id (f pr) = pr_id pr"
  shows "ledgerWf (snd (updatePlayerRanking s (pr_id pr) f))"
proof -
  let ?g = "\<lambda>(k, x). if k = pr_id pr then (pr_id pr, f pr) else (k, x)"
  have "fst \<circ> ?g = fst"
    by (rule ext) (simp add: split_def)
  then have keys: "distinct (map fst (map ?g (playerRankings s)))"
    using wf by (simp add: ledgerWf_def)
  have "list_all (\<lambda>(k, x). pr_id x = k \<and> k < playerRankingIdCounter s) (map ?g (playerRankings s))"
    using wf keep by (auto simp: ledgerWf_def list_all_iff split: if_splits)
  with keys show ?thesis
    by (simp only: ledgerWf_def updatePlayerRanking_entries [OF wf mem]
        updatePlayerRanking_frame simp_thms)
qed

lemma updatePlayerRanking_get:
  assumes wf: "ledgerWf s" and mem: "pr \<in> set (mapValues (playerRankings s))"
    and keep: "playerId (f pr) = playerId pr" "pr_rankingId (f pr) = pr_rankingId pr"
  shows "getPlayerRanking (snd (updatePlayerRanking s (pr_id pr) f)) p r =
         map_option (\<lambda>x. if pr_id x = pr_id pr then f pr else x) (getPlayerRanking s p r)"
proof -
  let ?P = "\<lambda>x. playerId x = p \<and> pr_rankingId x = r"
  let ?g = "\<lambda>x. if pr_id x = pr_id pr then f pr else x"
  have "find (?P \<circ> ?g) (mapValues (playerRankings s)) = find ?P (mapValues (playerRankings s))"
  proof (rule find_cong [OF refl])
    fix x assume "x \<in> set (mapValues (playerRankings s))"
    then show "(?P \<circ> ?g) x = ?P x"
      using ledger_id_inj [OF wf _ mem] keep by auto
  qed
  then show ?thesis
    by (simp add: getPlayerRanking_def updatePlayerRanking_values [OF wf mem] find_map_comp)
qed


lemma updatePlayerRanking_twice:
  assumes wf: "ledgerWf s" and mem: "pr \<in> set (mapValues (playerRankings s))"
    and keep1: "pr_id (f1 pr) = pr_id pr" "playerId (f1 pr) = playerId pr"
      "pr_rankingId (f1 pr) = pr_rankingId pr"
    and keep2: "pr_id (f2 (f1 pr)) = pr_id pr" "playerId (f2 (f1 pr)) = playerId pr"
      "pr_rankingId (f2 (f1 pr)) = pr_rankingId pr"
  shows "getPlayerRanking
           (snd (updatePlayerRanking (snd (updatePlayerRanking s (pr_id pr) f1)) (pr_id pr) f2)) p r =
         map_option (\<lambda>x. if pr_id x = pr_id pr then f2 (f1 pr) else x) (getPlayerRanking s p r)"
    and "ledgerWf
           (snd (updatePlayerRanking (snd (updatePlayerRanking s (pr_id pr) f1)) (pr_id pr) f2))"
proof -
  let ?s' = "snd (updatePlayerRanking s (pr_id pr) f1)"
  have wf': "ledgerWf ?s'"
    using wf mem keep1(1) by (rule updatePlayerRanking_wf)
  have mem': "f1 pr \<in> set (mapValues (playerRankings ?s'))"
    using mem by (auto simp: updatePlayerRanking_values [OF wf mem])
  have k2: "playerId (f2 (f1 pr)) = playerId (f1 pr)"
    "pr_rankingId (f2 (f1 pr)) = pr_rankingId (f1 pr)" "pr_id (f2 (f1 pr)) = pr_id (f1 pr)"
    using keep1 keep2 by simp_all
  have "getPlayerRanking (snd (updatePlayerRanking ?s' (pr_id (f1 pr)) f2)) p r =
        map_option (\<lambda>x. if pr_id x = pr_id (f1 pr) then f2 (f1 pr) else x)
          (getPlayerRanking ?s' p r)"
    using wf' mem' k2(1,2) by (rule updatePlayerRanking_get)
  then show "getPlayerRanking (snd (updatePlayerRanking ?s' (pr_id pr) f2)) p r =
         map_option (\<lambda>x. if pr_id x = pr_id pr then f2 (f1 pr) else x) (getPlayerRanking s p r)"
    using keep1(1)
    by (cases "getPlayerRanking s p r")
      (simp_all add: updatePlayerRanking_get [of s pr f1, OF wf mem keep1(2,3)])
  from updatePlayerRanking_wf [of ?s' "f1 pr" f2, OF wf' mem' k2(3)]
  show "ledgerWf (snd (updatePlayerRanking ?s' (pr_id pr) f2))"
    by (simp only: keep1(1))
qed

lemma createPlayerRanking_entries:
  assumes wf: "ledgerWf s"
  shows "playerRankings (snd (createPlayerRanking s p r c pts w l)) =
         playerRankings s @
           [(playerRankingIdCounter s,
             \<lparr>pr_id = playerRankingIdCounter s, playerId = p, pr_rankingId = r, category = c,
              points = pts, wins = w, losses = l\<rparr>)]"
proof -
  have "playerRankingIdCounter s \<notin> fst ` set (playerRankings s)"
    using ledger_entry_key(2) [OF wf] by force
  then show ?thesis
    by (simp add: createPlayerRanking_def Let_def mapSet_absent)
qed

lemma createPlayerRanking_counter:
  "playerRankingIdCounter (snd (createPlayerRanking s p r c pts w l)) = playerRankingIdCounter s + 1"
  by (simp add: createPlayerRanking_def Let_def)

lemma createPlayerRanking_wf:
  assumes wf: "ledgerWf s"
  shows "ledgerWf (snd (createPlayerRanking s p r c pts w l))"
proof -
  have "playerRankingIdCounter s \<notin> fst ` set (playerRankings s)"
    using ledger_entry_key(2) [OF wf] by force
  moreover have "list_all (\<lambda>(k, x). pr_id x = k \<and> k < playerRankingIdCounter s + 1) (playerRankings s)"
    using wf by (auto simp: ledgerWf_def list_all_iff)
  ultimately show ?thesis
    using wf
    by (simp add: ledgerWf_def createPlayerRanking_entries [OF wf] createPlayerRanking_counter)
qed

lemma find_append_eq:
  "find P (xs @ ys) = (case find P xs of Some x \<Rightarrow> Some x | None \<Rightarrow> find P ys)"
  by (induction xs) auto

lemma createPlayerRanking_get:
  assumes wf: "ledgerWf s"
  shows "getPlayerRanking (snd (createPlayerRanking s pid rid c pts w l)) p r =
         (case getPlayerRanking s p r of
            Some x \<Rightarrow> Some x
          | None \<Rightarrow>
              if p = pid \<and> r = rid
              then Some \<lparr>pr_id = playerRankingIdCounter s, playerId = pid, pr_rankingId = rid,
                          category = c, points = pts, wins = w, losses = l\<rparr>
              else None)"
  by (auto simp: getPlayerRanking_def mapValues_def createPlayerRanking_entries [OF wf]
      find_append_eq split: option.splits)


lemma getPlayerRanking_SomeD:
  assumes "getPlayerRanking s pid rid = Some pr"
  shows "pr \<in> set (mapValues (playerRankings s))" "playerId pr = pid" "pr_rankingId pr = rid"
  using assms by (auto simp: getPlayerRanking_def find_Some_iff)

lemma category_update_same: "category r = c \<Longrightarrow> r\<lparr>category := c\<rparr> = (r :: PlayerRanking)"
  by (cases r) simp

lemma ledgerStep_Some:
  assumes wf: "ledgerWf s" and found: "getPlayerRanking s pid rid = Some pr"
  shows "getPlayerRanking (ledgerStep s (Some pr) pid rid won) p r =
         map_option (\<lambda>x. if pr_id x = pr_id pr then entryAfter (playerRankingIdCounter s) (Some pr) pid rid won else x)
           (getPlayerRanking s p r)"
    and "ledgerWf (ledgerStep s (Some pr) pid rid won)"
proof -
  note mem = getPlayerRanking_SomeD(1) [OF found]
  note two = updatePlayerRanking_twice [OF wf mem]
  note one = updatePlayerRanking_get [OF wf mem] updatePlayerRanking_wf [OF wf mem]
  show "getPlayerRanking (ledgerStep s (Some pr) pid rid won) p r =
         map_option (\<lambda>x. if pr_id x = pr_id pr then entryAfter (playerRankingIdCounter s) (Some pr) pid rid won else x)
           (getPlayerRanking s p r)"
    by (simp add: ledgerStep_def entryAfter_def Let_def two(1) one(1) category_update_same
        cong del: if_weak_cong)
  show "ledgerWf (ledgerStep s (Some pr) pid rid won)"
    by (simp add: ledgerStep_def Let_def two(2) one(2))
qed

lemma ledgerStep_get:
  assumes wf: "ledgerWf s"
  shows "getPlayerRanking (ledgerStep s (getPlayerRanking s pid rid) pid rid won) p r =
         (if p = pid \<and> r = rid
          then Some (entryAfter (playerRankingIdCounter s) (getPlayerRanking s pid rid) pid rid won)
          else getPlayerRanking s p r)"
proof (cases "getPlayerRanking s pid rid")
  case None
  then show ?thesis
    by (auto simp: ledgerStep_def entryAfter_def createPlayerRanking_get [OF wf]
        split: option.splits)
next
  case found: (Some pr)
  note d = getPlayerRanking_SomeD [OF found]
  show ?thesis
  proof (cases "getPlayerRanking s p r")
    case None
    with found have "\<not> (p = pid \<and> r = rid)" by auto
    with None show ?thesis
      by (simp add: found ledgerStep_Some(1) [OF wf found])
  next
    case (Some x)
    note dx = getPlayerRanking_SomeD [OF Some]
    show ?thesis
    proof (cases "p = pid \<and> r = rid")
      case True
      with Some found have "x = pr" by simp
      with True Some show ?thesis
        by (simp add: found ledgerStep_Some(1) [OF wf found])
    next
      case False
      with d dx have "x \<noteq> pr" by auto
      with ledger_id_inj [OF wf dx(1) d(1)] have "pr_id x \<noteq> pr_id pr" by blast
      with False Some show ?thesis
        by (auto simp: found ledgerStep_Some(1) [OF wf found])
    qed
  qed
qed

lemma ledgerStep_wf:
  assumes wf: "ledgerWf s"
  shows "ledgerWf (ledgerStep s (getPlayerRanking s pid rid) pid rid won)"
proof (cases "getPlayerRanking s pid rid")
  case None
  then show ?thesis
    by (simp add: ledgerStep_def createPlayerRanking_wf [OF wf])
next
  case (Some pr)
  then show ?thesis
    by (simp add: ledgerStep_Some(2) [OF wf Some])
qed

lemma ledgerStep_counter:
  "playerRankingIdCounter (ledgerStep s found pid rid won) =
     playerRankingIdCounter s + (if found = None then 1 else 0)"
  by (cases found)
    (simp_all add: ledgerStep_def Let_def createPlayerRanking_counter updatePlayerRanking_frame)

lemma ledgerStep_frame:
  "users (ledgerStep s found pid rid won) = users s"
  "rankings (ledgerStep s found pid rid won) = rankings s"
  "locations (ledgerStep s found pid rid won) = locations s"
  "matches (ledgerStep s found pid rid won) = matches s"
  "userIdCounter (ledgerStep s found pid rid won) = userIdCounter s"
  "rankingIdCounter (ledgerStep s found pid rid won) = rankingIdCounter s"
  "locationIdCounter (ledgerStep s found pid rid won) = locationIdCounter s"
  "matchIdCounter (ledgerStep s found pid rid won) = matchIdCounter s"
  by (cases found;
      simp add: ledgerStep_def Let_def createPlayerRanking_frame updatePlayerRanking_frame)+

lemma updatePlayerRankingsForMatch_steps:
  "updatePlayerRankingsForMatch s m =
     ledgerStep
       (ledgerStep s (getPlayerRanking s (player1Id m) (rankingId m)) (player1Id m) (rankingId m)
          (player1IsWinner (score m)))
       (getPlayerRanking s (player2Id m) (rankingId m)) (player2Id m) (rankingId m)
       (\<not> player1IsWinner (score m))"
  by (cases "player1IsWinner (score m)")
    (simp_all add: updatePlayerRankingsForMatch_def ledgerStep_def Let_def)

section \<open>The ledger update, entry by entry\<close>

lemma updatePlayerRankingsForMatch_get1:
  assumes wf: "ledgerWf s" and ne: "player1Id m \<noteq> player2Id m"
  shows "getPlayerRanking (updatePlayerRankingsForMatch s m) (player1Id m) (rankingId m) =
         Some (entryAfter (playerRankingIdCounter s)
                 (getPlayerRanking s (player1Id m) (rankingId m)) (player1Id m) (rankingId m)
                 (player1IsWinner (score m)))"
proof -
  let ?s1 = "ledgerStep s (getPlayerRanking s (player1Id m) (rankingId m)) (player1Id m)
               (rankingId m) (player1IsWinner (score m))"
  have wf1: "ledgerWf ?s1" by (rule ledgerStep_wf [OF wf])
  have same: "getPlayerRanking ?s1 (player2Id m) (rankingId m) =
              getPlayerRanking s (player2Id m) (rankingId m)"
    using ne ne [symmetric] by (simp add: ledgerStep_get [OF wf])
  have "getPlayerRanking
          (ledgerStep ?s1 (getPlayerRanking ?s1 (player2Id m) (rankingId m)) (player2Id m)
             (rankingId m) (\<not> player1IsWinner (score m))) (player1Id m) (rankingId m) =
        getPlayerRanking ?s1 (player1Id m) (rankingId m)"
    using ne ne [symmetric] by (simp add: ledgerStep_get [OF wf1])
  then show ?thesis
    using ne ne [symmetric]
    by (simp add: updatePlayerRankingsForMatch_steps same ledgerStep_get [OF wf])
qed

lemma updatePlayerRankingsForMatch_get2:
  assumes wf: "ledgerWf s" and ne: "player1Id m \<noteq> player2Id m"
  shows "getPlayerRanking (updatePlayerRankingsForMatch s m) (player2Id m) (rankingId m) =
         Some (entryAfter
                 (playerRankingIdCounter s +
                    (if getPlayerRanking s (player1Id m) (rankingId m) = None then 1 else 0))
                 (getPlayerRanking s (player2Id m) (rankingId m)) (player2Id m) (rankingId m)
                 (\<not> player1IsWinner (score m)))"
proof -
  let ?s1 = "ledgerStep s (getPlayerRanking s (player1Id m) (rankingId m)) (player1Id m)
               (rankingId m) (player1IsWinner (score m))"
  have wf1: "ledgerWf ?s1" by (rule ledgerStep_wf [OF wf])
  have same: "getPlayerRanking ?s1 (player2Id m) (rankingId m) =
              getPlayerRanking s (player2Id m) (rankingId m)"
    using ne ne [symmetric] by (simp add: ledgerStep_get [OF wf])
  have "getPlayerRanking
          (ledgerStep ?s1 (getPlayerRanking ?s1 (player2Id m) (rankingId m)) (player2Id m)
             (rankingId m) (\<not> player1IsWinner (score m))) (player2Id m) (rankingId m) =
        Some (entryAfter (playerRankingIdCounter ?s1)
                (getPlayerRanking ?s1 (player2Id m) (rankingId m)) (player2Id m) (rankingId m)
                (\<not> player1IsWinner (score m)))"
    by (simp add: ledgerStep_get [OF wf1])
  then show ?thesis
    using ne ne [symmetric]
    by (simp add: updatePlayerRankingsForMatch_steps same ledgerStep_counter)
qed

lemma updatePlayerRankingsForMatch_other:
  assumes wf: "ledgerWf s" and ne: "player1Id m \<noteq> player2Id m"
    and other: "\<not> (p = player1Id m \<and> r = rankingId m)" "\<not> (p = player2Id m \<and> r = rankingId m)"
  shows "getPlayerRanking (updatePlayerRankingsForMatch s m) p r = getPlayerRanking s p r"
proof -
  let ?s1 = "ledgerStep s (getPlayerRanking s (player1Id m) (rankingId m)) (player1Id m)
               (rankingId m) (player1IsWinner (score m))"
  have wf1: "ledgerWf ?s1" by (rule ledgerStep_wf [OF wf])
  have same: "getPlayerRanking ?s1 (player2Id m) (rankingId m) =
              getPlayerRanking s (player2Id m) (rankingId m)"
    using ne ne [symmetric] by (simp add: ledgerStep_get [OF wf])
  have "getPlayerRanking
          (ledgerStep ?s1 (getPlayerRanking ?s1 (player2Id m) (rankingId m)) (player2Id m)
             (rankingId m) (\<not> player1IsWinner (score m))) p r =
        getPlayerRanking ?s1 p r"
    using other by (auto simp: ledgerStep_get [OF wf1])
  then show ?thesis
    using other ne ne [symmetric]
    by (auto simp: updatePlayerRankingsForMatch_steps same ledgerStep_get [OF wf])
qed

lemma updatePlayerRankingsForMatch_wf:
  assumes wf: "ledgerWf s" and ne: "player1Id m \<noteq> player2Id m"
  shows "ledgerWf (updatePlayerRankingsForMatch s m)"
proof -
  let ?s1 = "ledgerStep s (getPlayerRanking s (player1Id m) (rankingId m)) (player1Id m)
               (rankingId m) (player1IsWinner (score m))"
  have wf1: "ledgerWf ?s1" by (rule ledgerStep_wf [OF wf])
  have same: "getPlayerRanking ?s1 (player2Id m) (rankingId m) =
              getPlayerRanking s (player2Id m) (rankingId m)"
    using ne ne [symmetric] by (simp add: ledgerStep_get [OF wf])
  from ledgerStep_wf [OF wf1, of "player2Id m" "rankingId m" "\<not> player1IsWinner (score m)"]
  show ?thesis
    using ne ne [symmetric] by (simp add: updatePlayerRankingsForMatch_steps same)
qed

lemma updatePlayerRankingsForMatch_frame:
  "users (updatePlayerRankingsForMatch s m) = users s"
  "rankings (updatePlayerRankingsForMatch s m) = rankings s"
  "locations (updatePlayerRankingsForMatch s m) = locations s"
  "matches (updatePlayerRankingsForMatch s m) = matches s"
  "userIdCounter (updatePlayerRankingsForMatch s m) = userIdCounter s"
  "rankingIdCounter (updatePlayerRankingsForMatch s m) = rankingIdCounter s"
  "locationIdCounter (updatePlayerRankingsForMatch s m) = locationIdCounter s"
  "matchIdCounter (updatePlayerRankingsForMatch s m) = matchIdCounter s"
  by (simp_all add: updatePlayerRankingsForMatch_steps ledgerStep_frame)

lemma exampleStore_wf: "ledgerWf exampleStore"
  by (simp add: ledgerWf_def exampleStore_def entry1_def entry2_def entry3_def)

lemma updatePlayerRankingsForMatch_player:
  assumes wf: "ledgerWf s" and ne: "player1Id m \<noteq> player2Id m"
    and p: "p = player1Id m \<or> p = player2Id m"
  shows "\<exists>c. getPlayerRanking (updatePlayerRankingsForMatch s m) p (rankingId m) =
           Some (entryAfter c (getPlayerRanking s p (rankingId m)) p (rankingId m) (p = winnerId m))"
proof -
  from p show ?thesis
  proof
    assume "p = player1Id m"
    moreover from ne have "(player1Id m = winnerId m) = player1IsWinner (score m)"
      by (simp add: winnerId_def)
    ultimately show ?thesis
      using updatePlayerRankingsForMatch_get1 [OF wf ne] by auto
  next
    assume "p = player2Id m"
    moreover from ne have "(player2Id m = winnerId m) = (\<not> player1IsWinner (score m))"
      by (auto simp: winnerId_def)
    ultimately show ?thesis
      using updatePlayerRankingsForMatch_get2 [OF wf ne] by auto
  qed
qed

lemma winner_loser_players:
  "winnerId m = player1Id m \<or> winnerId m = player2Id m"
  "loserId m = player1Id m \<or> loserId m = player2Id m"
  by (simp_all add: winnerId_def loserId_def)

subsection \<open>Evaluating the example data\<close>

lemma example_lookups:
  "getPlayerRanking exampleStore 1 1 = Some entry1"
  "getPlayerRanking exampleStore 2 1 = Some entry2"
  "getPlayerRanking exampleStore 5 1 = None"
  by (simp_all add: getPlayerRanking_def mapValues_def exampleStore_def entry1_def entry2_def
      entry3_def)

lemma example_winner:
  "player1IsWinner exampleScore"
  "winnerId (exampleMatch p1 p2) = p1"
  "loserId (exampleMatch p1 p2) = p2"
  by (simp_all add: winnerId_def loserId_def exampleMatch_def player1IsWinner_def exampleScore_def)

lemma exampleMatch_fields:
  "player1Id (exampleMatch p1 p2) = p1" "player2Id (exampleMatch p1 p2) = p2"
  "rankingId (exampleMatch p1 p2) = 1" "score (exampleMatch p1 p2) = exampleScore"
  by (simp_all add: exampleMatch_def)

lemma example_rankings:
  "getRanking exampleStore 1 = Some openRanking"
  "getRanking exampleStore 2 = Some clubRanking"
  "getRanking exampleStore 99 = None"
  "\<not> requiresValidation openRanking" "requiresValidation clubRanking"
  by (simp_all add: getRanking_def exampleStore_def openRanking_def clubRanking_def)

lemma example_admin:
  "\<not> suspendedNow adminUser now"
  "resolvePlayer1 adminUser (req_player1Id (exampleRequest rid p2)) = Inr 1"
  "req_player2Id (exampleRequest rid p2) = p2"
  "req_rankingId (exampleRequest rid p2) = rid"
  by (simp_all add: suspendedNow_def adminUser_def resolvePlayer1_def exampleRequest_def)

lemma example_stored_match:
  "matches exampleStoreWithMatch 1 = Some (exampleMatch 1 2)"
  by (simp add: exampleStoreWithMatch_def)

subsection \<open>Every operation keeps the representation invariant\<close>

lemma mapGet_SomeD:
  assumes "mapGet kvs k = Some x"
  shows "(k, x) \<in> set kvs"
  using assms by (simp add: mapGet_def map_of_SomeD)

lemma updatePlayerRanking_wf_any:
  assumes wf: "ledgerWf s" and keep: "\<And>x. pr_id (f x) = pr_id x"
  shows "ledgerWf (snd (updatePlayerRanking s k f))"
proof (cases "mapGet (playerRankings s) k")
  case None
  then show ?thesis using wf by (simp add: updatePlayerRanking_def)
next
  case (Some x)
  from mapGet_SomeD [OF Some] have mem: "x \<in> set (mapValues (playerRankings s))"
    by (force simp: mapValues_def)
  from ledger_entry_key(1) [OF wf mapGet_SomeD [OF Some]] have k: "pr_id x = k" .
  from updatePlayerRanking_wf [of s x f, OF wf mem keep] show ?thesis
    by (simp only: k)
qed

lemma ledgerStep_wf_any:
  assumes wf: "ledgerWf s"
  shows "ledgerWf (ledgerStep s found pid rid won)"
proof (cases found)
  case None
  then show ?thesis by (simp add: ledgerStep_def createPlayerRanking_wf [OF wf])
next
  case (Some pr)
  have one: "ledgerWf (snd (updatePlayerRanking s k f))" if "\<And>x. pr_id (f x) = pr_id x" for k f
    using wf that by (rule updatePlayerRanking_wf_any)
  have two: "ledgerWf (snd (updatePlayerRanking (snd (updatePlayerRanking s k f)) k' g))"
    if "\<And>x. pr_id (f x) = pr_id x" "\<And>x. pr_id (g x) = pr_id x" for k k' f g
    using one [OF that(1)] that(2) by (rule updatePlayerRanking_wf_any)
  show ?thesis
    by (simp add: Some ledgerStep_def Let_def one two)
qed

lemma updatePlayerRankingsForMatch_wf_any:
  "ledgerWf s \<Longrightarrow> ledgerWf (updatePlayerRankingsForMatch s m)"
  by (simp add: updatePlayerRankingsForMatch_steps ledgerStep_wf_any)

lemma ledgerWf_matches_update:
  "ledgerWf (s\<lparr>matches := x\<rparr>) = ledgerWf s"
  "ledgerWf (s\<lparr>matchIdCounter := y\<rparr>) = ledgerWf s"
  by (simp_all add: ledgerWf_def)

lemma initialStore_wf: "ledgerWf initialStore"
  by (simp add: ledgerWf_def initialStore_def)

lemma validateMatch_wf: "ledgerWf s \<Longrightarrow> ledgerWf (snd (validateMatch s matchId isApproved reason))"
  by (simp add: validateMatch_def Let_def updatePlayerRankingsForMatch_wf_any
      ledgerWf_matches_update split: option.splits)

lemma createMatch_wf: "ledgerWf s \<Longrightarrow> ledgerWf (snd (createMatch s im))"
  by (simp add: createMatch_def Let_def ledgerWf_def)

lemma postMatches_wf: "ledgerWf s \<Longrightarrow> ledgerWf (snd (postMatches s now user body))"
  by (simp add: postMatches_def Let_def validateMatch_wf createMatch_wf
      split: option.splits sum.splits)

subsection \<open>The ledger update does not read the matches\<close>

lemma getPlayerRanking_matches_update:
  "getPlayerRanking (s\<lparr>matchIdCounter := y\<rparr>) p r = getPlayerRanking s p r"
  "getPlayerRanking (s\<lparr>matches := x\<rparr>) p r = getPlayerRanking s p r"
  by (simp_all add: getPlayerRanking_def)

lemma updatePlayerRanking_matches_update:
  "snd (updatePlayerRanking (s\<lparr>matchIdCounter := y\<rparr>) k f) =
     (snd (updatePlayerRanking s k f))\<lparr>matchIdCounter := y\<rparr>"
  "snd (updatePlayerRanking (s\<lparr>matches := x\<rparr>) k f) =
     (snd (updatePlayerRanking s k f))\<lparr>matches := x\<rparr>"
  by (simp_all add: updatePlayerRanking_def Let_def split: option.splits)

lemma createPlayerRanking_matches_update:
  "snd (createPlayerRanking (s\<lparr>matchIdCounter := y\<rparr>) p r c pts w l) =
     (snd (createPlayerRanking s p r c pts w l))\<lparr>matchIdCounter := y\<rparr>"
  "snd (createPlayerRanking (s\<lparr>matches := x\<rparr>) p r c pts w l) =
     (snd (createPlayerRanking s p r c pts w l))\<lparr>matches := x\<rparr>"
  by (simp_all add: createPlayerRanking_def Let_def)

lemma ledgerStep_matches_update:
  "ledgerStep (s\<lparr>matchIdCounter := y\<rparr>) found pid rid won =
     (ledgerStep s found pid rid won)\<lparr>matchIdCounter := y\<rparr>"
  "ledgerStep (s\<lparr>matches := x\<rparr>) found pid rid won =
     (ledgerStep s found pid rid won)\<lparr>matches := x\<rparr>"
  by (cases found;
      simp add: ledgerStep_def Let_def updatePlayerRanking_matches_update
        createPlayerRanking_matches_update)+

lemma updatePlayerRankingsForMatch_matches_update:
  "updatePlayerRankingsForMatch (s\<lparr>matchIdCounter := y\<rparr>) m =
     (updatePlayerRankingsForMatch s m)\<lparr>matchIdCounter := y\<rparr>"
  "updatePlayerRankingsForMatch (s\<lparr>matches := x\<rparr>) m =
     (updatePlayerRankingsForMatch s m)\<lparr>matches := x\<rparr>"
  by (simp_all add: updatePlayerRankingsForMatch_steps ledgerStep_matches_update
      getPlayerRanking_matches_update)

lemma updatePlayerRankingsForMatch_cong:
  assumes "player1Id m' = player1Id m" "player2Id m' = player2Id m" "rankingId m' = rankingId m"
    "score m' = score m"
  shows "updatePlayerRankingsForMatch s m' = updatePlayerRankingsForMatch s m"
  by (simp add: updatePlayerRankingsForMatch_steps assms)

section \<open>Ranking Ledger: results\<close>

text \<open>
  C1. For a store that satisfies the representation invariant and a match
  between two different players: a player of the match whose ledger entry
  exists before the call has afterwards the entry with the points moved on (by
  10 for the winner, by 0 for the loser) and with the category that the
  four-branch decision tree of the specification gives for the new points and
  the category before the call. In particular an entry in category C whose new
  points are at least 1000 is in category SS afterwards.
\<close>

theorem category_reevaluation:
  assumes wf: "ledgerWf s" and ne: "player1Id m \<noteq> player2Id m"
    and p: "p = player1Id m \<or> p = player2Id m"
    and found: "getPlayerRanking s p (rankingId m) = Some pr"
  shows "\<exists>e. getPlayerRanking (updatePlayerRankingsForMatch s m) p (rankingId m) = Some e
           \<and> points e = points pr + (if p = winnerId m then 10 else 0)
           \<and> category e = categoryAfter_spec (points e) (category pr)
           \<and> (category pr = CatC \<and> points e \<ge> 1000 \<longrightarrow> category e = CatSS)"
  using updatePlayerRankingsForMatch_player [OF wf ne p]
  by (auto simp: found entryAfter_def categoryAfter_spec_def Let_def)

theorem category_reevaluation_witness:
  "\<exists>e. getPlayerRanking (updatePlayerRankingsForMatch exampleStore (exampleMatch 2 1)) 2 1 = Some e
     \<and> points e = 1000 \<and> category e = CatSS"
  using category_reevaluation [OF exampleStore_wf, of "exampleMatch 2 1" 2 entry2]
  by (auto simp: example_winner exampleMatch_fields example_lookups entry2_def)

text \<open>
  C2 (as amended). An entry with 240 points in category B whose player wins a
  match has afterwards 250 points, one more win, and category A: the first
  three branches do not apply, and the fourth (at least 100 points and category
  exactly B) does.
\<close>

theorem b_player_at_250_becomes_a:
  assumes wf: "ledgerWf s" and ne: "player1Id m \<noteq> player2Id m"
    and found: "getPlayerRanking s (winnerId m) (rankingId m) = Some pr"
    and pts: "points pr = 240" and cat: "category pr = CatB"
  shows "getPlayerRanking (updatePlayerRankingsForMatch s m) (winnerId m) (rankingId m) =
           Some (pr\<lparr>points := 250, wins := wins pr + 1, category := CatA\<rparr>)"
  using updatePlayerRankingsForMatch_player [OF wf ne winner_loser_players(1)]
  by (auto simp: found pts cat entryAfter_def Let_def)

theorem b_player_at_250_becomes_a_witness:
  "getPlayerRanking (updatePlayerRankingsForMatch exampleStore (exampleMatch 1 2)) 1 1 =
     Some \<lparr>pr_id = 1, playerId = 1, pr_rankingId = 1, category = CatA,
           points = 250, wins = 25, losses = 3\<rparr>"
  using b_player_at_250_becomes_a [OF exampleStore_wf, of "exampleMatch 1 2" entry1]
  by (simp add: example_winner exampleMatch_fields example_lookups entry1_def)

text \<open>
  The claim as stated, that the category is still B at 250 points, fails on the
  example store: the administrator (player 1, 240 points, category B) wins
  against player 2.
\<close>

theorem b_player_at_250_counterexample:
  "getPlayerRanking exampleStore (winnerId (exampleMatch 1 2)) (rankingId (exampleMatch 1 2)) =
     Some entry1
   \<and> points entry1 = 240 \<and> category entry1 = CatB
   \<and> map_option (\<lambda>e. (points e, category e))
       (getPlayerRanking (updatePlayerRankingsForMatch exampleStore (exampleMatch 1 2))
          (winnerId (exampleMatch 1 2)) (rankingId (exampleMatch 1 2))) \<noteq> Some (250, CatB)"
  using updatePlayerRankingsForMatch_get1 [OF exampleStore_wf, of "exampleMatch 1 2"]
  by (simp add: example_winner exampleMatch_fields example_lookups entry1_def entryAfter_def)

text \<open>
  C3. For a store that satisfies the representation invariant and a match
  between two different players: the winner's entry has afterwards 10 more
  points, one more win and the same losses (10, 1, 0 when it did not exist);
  the loser's entry has one more loss and the same points and wins (0, 0, 1
  when it did not exist); winner and loser are different players, chosen by
  \<open>player1IsWinner\<close>.
\<close>

theorem ledger_update_winner_loser:
  assumes wf: "ledgerWf s" and ne: "player1Id m \<noteq> player2Id m"
  shows "map_option (\<lambda>e. (points e, wins e, losses e))
           (getPlayerRanking (updatePlayerRankingsForMatch s m) (winnerId m) (rankingId m)) =
         Some (case getPlayerRanking s (winnerId m) (rankingId m) of
                 None \<Rightarrow> (10, 1, 0)
               | Some pr \<Rightarrow> (points pr + 10, wins pr + 1, losses pr))
       \<and> map_option (\<lambda>e. (points e, wins e, losses e))
           (getPlayerRanking (updatePlayerRankingsForMatch s m) (loserId m) (rankingId m)) =
         Some (case getPlayerRanking s (loserId m) (rankingId m) of
                 None \<Rightarrow> (0, 0, 1)
               | Some pr \<Rightarrow> (points pr, wins pr, losses pr + 1))
       \<and> winnerId m \<noteq> loserId m
       \<and> winnerId m = (if player1IsWinner (score m) then player1Id m else player2Id m)
       \<and> loserId m = (if player1IsWinner (score m) then player2Id m else player1Id m)"
proof -
  have lw: "(loserId m = winnerId m) = False"
    using ne by (auto simp: winnerId_def loserId_def)
  from updatePlayerRankingsForMatch_player [OF wf ne winner_loser_players(1)]
  have w: "map_option (\<lambda>e. (points e, wins e, losses e))
           (getPlayerRanking (updatePlayerRankingsForMatch s m) (winnerId m) (rankingId m)) =
         Some (case getPlayerRanking s (winnerId m) (rankingId m) of
                 None \<Rightarrow> (10, 1, 0)
               | Some pr \<Rightarrow> (points pr + 10, wins pr + 1, losses pr))"
    by (auto simp: entryAfter_def Let_def split: option.splits)
  from updatePlayerRankingsForMatch_player [OF wf ne winner_loser_players(2)]
  have l: "map_option (\<lambda>e. (points e, wins e, losses e))
           (getPlayerRanking (updatePlayerRankingsForMatch s m) (loserId m) (rankingId m)) =
         Some (case getPlayerRanking s (loserId m) (rankingId m) of
                 None \<Rightarrow> (0, 0, 1)
               | Some pr \<Rightarrow> (points pr, wins pr, losses pr + 1))"
    by (auto simp: lw entryAfter_def Let_def split: option.splits)
  from w l lw show ?thesis
    by (simp add: winnerId_def loserId_def)
qed

theorem ledger_update_winner_loser_witness:
  "map_option (\<lambda>e. (points e, wins e, losses e))
     (getPlayerRanking (updatePlayerRankingsForMatch exampleStore (exampleMatch 1 2)) 1 1) =
     Some (250, 25, 3)
   \<and> map_option (\<lambda>e. (points e, wins e, losses e))
     (getPlayerRanking (updatePlayerRankingsForMatch exampleStore (exampleMatch 1 2)) 2 1) =
     Some (990, 99, 1)"
  using ledger_update_winner_loser [OF exampleStore_wf, of "exampleMatch 1 2"]
  by (simp add: example_winner exampleMatch_fields example_lookups entry1_def entry2_def)

text \<open>
  C9. For a store that satisfies the representation invariant and a match
  between two different players: a player of the match whose entry is absent
  or satisfies \<open>points = 10 * wins\<close> before the call has afterwards an entry that
  satisfies it; an entry created by the call has 10 points and 1 win (winner)
  or 0 points and 0 wins (loser).
\<close>

theorem points_ten_times_wins_preserved:
  assumes wf: "ledgerWf s" and ne: "player1Id m \<noteq> player2Id m"
    and p: "p = player1Id m \<or> p = player2Id m"
    and inv: "case getPlayerRanking s p (rankingId m) of
                None \<Rightarrow> True | Some pr \<Rightarrow> points pr = 10 * wins pr"
  shows "\<exists>e. getPlayerRanking (updatePlayerRankingsForMatch s m) p (rankingId m) = Some e
           \<and> points e = 10 * wins e
           \<and> (getPlayerRanking s p (rankingId m) = None \<longrightarrow>
                (points e, wins e, losses e) = (if p = winnerId m then (10, 1, 0) else (0, 0, 1)))"
  using updatePlayerRankingsForMatch_player [OF wf ne p] inv
  by (auto simp: entryAfter_def Let_def split: option.splits)

theorem points_ten_times_wins_preserved_witness:
  "(\<exists>e. getPlayerRanking (updatePlayerRankingsForMatch exampleStore (exampleMatch 1 5)) 5 1 = Some e
      \<and> points e = 10 * wins e \<and> (points e, wins e, losses e) = (0, 0, 1))
   \<and> (\<exists>e. getPlayerRanking (updatePlayerRankingsForMatch exampleStore (exampleMatch 1 5)) 1 1 = Some e
      \<and> points e = 10 * wins e)"
  using points_ten_times_wins_preserved [OF exampleStore_wf, of "exampleMatch 1 5" 5]
    points_ten_times_wins_preserved [OF exampleStore_wf, of "exampleMatch 1 5" 1]
  by (auto simp: example_winner exampleMatch_fields example_lookups entry1_def)

section \<open>Match Validation Workflow: results\<close>

text \<open>
  C5. When the user is not suspended, player 1 resolves to \<open>p1\<close>, the two
  players differ and the ranking exists, the route answers with the created
  match, stored under the next match id. Its status is \<open>approved\<close> when the
  ranking does not require validation, and then the ledger after the call is
  the ledger update of this match applied to the ledger before the call; its
  status is \<open>pending\<close> when the ranking requires validation, and then the
  ledger entries and their id counter are as before.
\<close>

theorem postMatches_initial_status:
  assumes auth: "\<not> suspendedNow user now"
    and res: "resolvePlayer1 user (req_player1Id matchData) = Inr p1"
    and ne: "p1 \<noteq> req_player2Id matchData"
    and rk: "getRanking s (req_rankingId matchData) = Some ranking"
  shows "\<exists>m. fst (postMatches s now user (Some matchData)) = Created m
           \<and> player1Id m = p1 \<and> player2Id m = req_player2Id matchData
           \<and> rankingId m = req_rankingId matchData \<and> score m = req_score matchData
           \<and> match_id m = matchIdCounter s
           \<and> status m = (if requiresValidation ranking then Pending else Approved)
           \<and> map_option status (matches (snd (postMatches s now user (Some matchData))) (match_id m))
               = Some (status m)
           \<and> (\<not> requiresValidation ranking \<longrightarrow>
                 playerRankings (snd (postMatches s now user (Some matchData))) =
                   playerRankings (updatePlayerRankingsForMatch s m)
                 \<and> playerRankingIdCounter (snd (postMatches s now user (Some matchData))) =
                   playerRankingIdCounter (updatePlayerRankingsForMatch s m))
           \<and> (requiresValidation ranking \<longrightarrow>
                 playerRankings (snd (postMatches s now user (Some matchData))) = playerRankings s
                 \<and> playerRankingIdCounter (snd (postMatches s now user (Some matchData))) =
                   playerRankingIdCounter s)"
proof (cases "requiresValidation ranking")
  case True
  with assms show ?thesis
    by (simp add: postMatches_def Let_def createMatch_def)
next
  case False
  let ?m = "fst (createMatch s
                 \<lparr>rankingId = req_rankingId matchData, player1Id = p1,
                  player2Id = req_player2Id matchData,
                  locationId = req_locationId matchData,
                  locationName = req_locationName matchData,
                  photoUrl = req_photoUrl matchData, status = Approved,
                  rejectionReason = req_rejectionReason matchData,
                  playedAt = req_playedAt matchData,
                  score = req_score matchData\<rparr>)"
  have c: "updatePlayerRankingsForMatch s (?m\<lparr>status := Approved, rejectionReason := None\<rparr>) =
           updatePlayerRankingsForMatch s ?m"
    by (rule updatePlayerRankingsForMatch_cong) simp_all
  from False assms show ?thesis
    using c
    by (simp add: postMatches_def Let_def createMatch_def validateMatch_def
        updatePlayerRankingsForMatch_matches_update updatePlayerRankingsForMatch_frame)
qed

theorem postMatches_initial_status_witness:
  "(\<exists>m. fst (postMatches exampleStore 0 adminUser (Some (exampleRequest 1 2))) = Created m
       \<and> status m = Approved)
   \<and> playerRankings (snd (postMatches exampleStore 0 adminUser (Some (exampleRequest 1 2)))) =
       [(1, entry1\<lparr>points := 250, wins := 25, category := CatA\<rparr>),
        (2, entry2\<lparr>losses := 1, category := CatS\<rparr>), (3, entry3)]
   \<and> (\<exists>m. fst (postMatches exampleStore 0 adminUser (Some (exampleRequest 2 2))) = Created m
       \<and> status m = Pending)
   \<and> playerRankings (snd (postMatches exampleStore 0 adminUser (Some (exampleRequest 2 2)))) =
       playerRankings exampleStore"
  using postMatches_initial_status [of adminUser 0 "exampleRequest 1 2" 1 exampleStore openRanking]
    postMatches_initial_status [of adminUser 0 "exampleRequest 2 2" 1 exampleStore clubRanking]
  apply (simp add: example_admin example_rankings)
  apply (elim exE conjE)
  apply (simp add: updatePlayerRankingsForMatch_def Let_def)
  apply (simp add: exampleRequest_def example_winner getPlayerRanking_def mapValues_def
      exampleStore_def entry1_def entry2_def entry3_def updatePlayerRanking_def mapGet_def Let_def)
  done

text \<open>
  C6 (as amended). Rejecting an existing match sets its status to
  \<open>rejected\<close> and its rejection reason to the given reason when that is a
  non-empty string, and to \<open>No reason provided\<close> when no reason or the empty
  string is given; only the match changes in the store, so no ledger entry is
  created or modified.
\<close>

theorem validateMatch_reject:
  assumes "matches s matchId = Some m"
  shows "\<exists>m'. validateMatch s matchId False reason =
             (Some m', s\<lparr>matches := (matches s)(matchId \<mapsto> m')\<rparr>)
           \<and> status m' = Rejected
           \<and> rejectionReason m' =
               Some (case reason of
                       None \<Rightarrow> ''No reason provided''
                     | Some r \<Rightarrow> if r = [] then ''No reason provided'' else r)
           \<and> playerRankings (snd (validateMatch s matchId False reason)) = playerRankings s
           \<and> playerRankingIdCounter (snd (validateMatch s matchId False reason)) =
               playerRankingIdCounter s"
  using assms
  by (simp add: validateMatch_def Let_def reasonOrDefault_def noReasonProvided_def
      split: option.splits)

theorem validateMatch_reject_witness:
  "map_option (\<lambda>m'. (status m', rejectionReason m'))
     (fst (validateMatch exampleStoreWithMatch 1 False None)) =
     Some (Rejected, Some ''No reason provided'')
   \<and> map_option (\<lambda>m'. (status m', rejectionReason m'))
     (fst (validateMatch exampleStoreWithMatch 1 False (Some ''wrong score''))) =
     Some (Rejected, Some ''wrong score'')
   \<and> playerRankings (snd (validateMatch exampleStoreWithMatch 1 False None)) =
     playerRankings exampleStoreWithMatch"
  using validateMatch_reject [OF example_stored_match, of None]
    validateMatch_reject [OF example_stored_match, of "Some ''wrong score''"]
  by auto

text \<open>
  The claim as stated, that a supplied reason is stored as it is, fails for the
  empty string: the stored reason is the placeholder.
\<close>

theorem validateMatch_reject_counterexample:
  "matches exampleStoreWithMatch 1 \<noteq> None
   \<and> map_option rejectionReason (fst (validateMatch exampleStoreWithMatch 1 False (Some ''''))) \<noteq>
       Some (Some '''')"
  by (simp add: validateMatch_def example_stored_match Let_def reasonOrDefault_def
      noReasonProvided_def)

text \<open>
  C7. When the user is not suspended and player 1 resolves to the same id as
  player 2, the route answers 400 and the store is unchanged, whatever ranking
  the request names and whether or not it exists.
\<close>

theorem postMatches_same_player:
  assumes "\<not> suspendedNow user now"
    and "resolvePlayer1 user (req_player1Id matchData) = Inr p1"
    and "p1 = req_player2Id matchData"
  shows "postMatches s now user (Some matchData) = (Failure 400 CannotPlayYourself, s)"
  using assms by (simp add: postMatches_def)

theorem postMatches_same_player_witness:
  "postMatches exampleStore 0 adminUser (Some (exampleRequest 99 1)) =
     (Failure 400 CannotPlayYourself, exampleStore)
   \<and> postMatches exampleStore 0 adminUser (Some (exampleRequest 1 1)) =
     (Failure 400 CannotPlayYourself, exampleStore)"
  using postMatches_same_player [of adminUser 0 "exampleRequest 99 1" 1 exampleStore]
    postMatches_same_player [of adminUser 0 "exampleRequest 1 1" 1 exampleStore]
  by (simp add: example_admin)

text \<open>
  C10. For an existing match, \<open>validateMatch\<close> stores and returns the match
  with a new status and rejection reason and every other field as before; on
  approval the rejection reason is cleared, whatever it was.
\<close>

theorem validateMatch_changes_status_and_reason_only:
  assumes "matches s matchId = Some m"
  shows "\<exists>m'. fst (validateMatch s matchId isApproved reason) = Some m'
           \<and> matches (snd (validateMatch s matchId isApproved reason)) matchId = Some m'
           \<and> status m' = (if isApproved then Approved else Rejected)
           \<and> (isApproved \<longrightarrow> rejectionReason m' = None)
           \<and> rankingId m' = rankingId m \<and> player1Id m' = player1Id m
           \<and> player2Id m' = player2Id m \<and> score m' = score m
           \<and> locationId m' = locationId m \<and> locationName m' = locationName m
           \<and> photoUrl m' = photoUrl m \<and> playedAt m' = playedAt m
           \<and> createdAt m' = createdAt m \<and> match_id m' = match_id m
           \<and> m' = m\<lparr>status := status m', rejectionReason := rejectionReason m'\<rparr>"
  using assms
  by (simp add: validateMatch_def Let_def updatePlayerRankingsForMatch_frame)

theorem validateMatch_changes_status_and_reason_only_witness:
  "map_option (\<lambda>m'. (status m', rejectionReason m', player1Id m', player2Id m', score m'))
     (fst (validateMatch
             (snd (validateMatch exampleStoreWithMatch 1 False (Some ''wrong score''))) 1 True None)) =
     Some (Approved, None, 1, 2, exampleScore)"
proof -
  let ?s1 = "snd (validateMatch exampleStoreWithMatch 1 False (Some ''wrong score''))"
  let ?m1 = "(exampleMatch 1 2)\<lparr>status := Rejected, rejectionReason := Some ''wrong score''\<rparr>"
  have stored: "matches ?s1 1 = Some ?m1"
    by (simp add: validateMatch_def example_stored_match Let_def reasonOrDefault_def
        noReasonProvided_def)
  from validateMatch_changes_status_and_reason_only [OF stored, of True None]
  show ?thesis
    by (auto simp: exampleMatch_fields)
qed

section \<open>Listing a ranking: results\<close>

lemma collectPlayers_eq:
  "collectPlayers us prs i result =
     result @ List.map_filter
       (\<lambda>(j, pr). map_option (\<lambda>u. playerWithRanking u pr (j + 1)) (us (playerId pr)))
       (enumerate i prs)"
  by (induction prs arbitrary: i result) (auto simp: split: option.splits)

lemma shown_map_filter:
  "map shownEntry
     (List.map_filter
        (\<lambda>(j, pr). map_option (\<lambda>u. playerWithRanking u pr (j + 1)) (us (playerId pr)))
        (enumerate i prs)) =
   map entryData (filter (\<lambda>pr. us (playerId pr) \<noteq> None) prs)"
  by (induction prs arbitrary: i)
    (auto simp: shownEntry_def entryData_def playerWithRanking_def
      split: option.splits)

lemma categoryName_eq: "(categoryName a = categoryName b) = (a = b)"
  by (cases a; cases b) simp_all

lemma categoryName_nonempty: "categoryName a \<noteq> []"
  by (cases a) simp_all

lemma getRankingPlayers_ordered:
  "getRankingPlayers s rid (map_option categoryName cf) =
     collectPlayers (users s) (listLedgerEntries_spec s rid cf) 0 []"
  by (cases cf)
    (simp_all add: getRankingPlayers_def listLedgerEntries_spec_def selectedEntries_def Let_def
      categoryName_eq categoryName_nonempty)

lemma sorted_descending:
  "sorted_wrt (\<lambda>a b. points a \<ge> points b) (sort_key (\<lambda>pr. - points pr) xs)"
proof -
  have "sorted (map (\<lambda>pr. - points pr) (sort_key (\<lambda>pr. - points pr) xs))"
    by (rule sorted_sort_key)
  then show ?thesis
    by (simp add: sorted_map)
qed

lemma example_listing:
  "listLedgerEntries_spec exampleStore 1 None = [entry2, entry3, entry1]"
  "listLedgerEntries_spec exampleStore 1 (Some CatC) = [entry2, entry3]"
  by (simp_all add: listLedgerEntries_spec_def selectedEntries_def exampleStore_def mapValues_def
      entry1_def entry2_def entry3_def)

lemma exampleRequest_fields:
  "req_locationId (exampleRequest rid p2) = None" "req_locationName (exampleRequest rid p2) = None"
  "req_photoUrl (exampleRequest rid p2) = None" "req_rejectionReason (exampleRequest rid p2) = None"
  "req_playedAt (exampleRequest rid p2) = None" "req_score (exampleRequest rid p2) = exampleScore"
  by (simp_all add: exampleRequest_def)

lemma storeAfterUnknownOpponent_eq:
  "playerRankings storeAfterUnknownOpponent =
     [(1, \<lparr>pr_id = 1, playerId = 1, pr_rankingId = 1, category = CatC,
            points = 10, wins = 1, losses = 0\<rparr>),
      (2, \<lparr>pr_id = 2, playerId = 7, pr_rankingId = 1, category = CatC,
            points = 0, wins = 0, losses = 1\<rparr>)]"
  "users storeAfterUnknownOpponent = [1 \<mapsto> adminUser]"
proof -
  have rk: "getRanking freshStore 1 = Some openRanking"
    by (simp add: getRanking_def freshStore_def)
  have step: "storeAfterUnknownOpponent =
        snd (validateMatch (snd (createMatch freshStore
               \<lparr>rankingId = 1, player1Id = 1, player2Id = 7, locationId = None,
                locationName = None, photoUrl = None, status = Approved,
                rejectionReason = None, playedAt = None, score = exampleScore\<rparr>))
             (matchIdCounter freshStore) True None)"
    by (simp add: storeAfterUnknownOpponent_def postMatches_def example_admin rk
        example_rankings Let_def createMatch_def exampleRequest_fields)
  show "playerRankings storeAfterUnknownOpponent =
     [(1, \<lparr>pr_id = 1, playerId = 1, pr_rankingId = 1, category = CatC,
            points = 10, wins = 1, losses = 0\<rparr>),
      (2, \<lparr>pr_id = 2, playerId = 7, pr_rankingId = 1, category = CatC,
            points = 0, wins = 0, losses = 1\<rparr>)]"
    unfolding step
    by (simp add: validateMatch_def createMatch_def Let_def
        updatePlayerRankingsForMatch_def example_winner getPlayerRanking_def mapValues_def
        createPlayerRanking_def freshStore_def initialStore_def)
  show "users storeAfterUnknownOpponent = [1 \<mapsto> adminUser]"
    unfolding step
    by (simp add: validateMatch_def createMatch_def Let_def updatePlayerRankingsForMatch_frame
        freshStore_def initialStore_def)
qed

text \<open>
  C8 (as amended). For every ranking id and optional category filter,
  \<open>getRankingPlayers\<close> returns the ledger entries of the ranking, restricted
  to the category when a filter is given, whose player has a user record, each
  with the 1-based position it has among all selected entries; the selected
  entries are ordered by points descending, and entries with equal points keep
  their insertion order.
\<close>

theorem getRankingPlayers_listing:
  "getRankingPlayers s rid (map_option categoryName cf) =
     List.map_filter
       (\<lambda>(i, pr). map_option (\<lambda>u. playerWithRanking u pr (i + 1)) (users s (playerId pr)))
       (enumerate 0 (listLedgerEntries_spec s rid cf))
   \<and> map shownEntry (getRankingPlayers s rid (map_option categoryName cf)) =
     map entryData
       (filter (\<lambda>pr. users s (playerId pr) \<noteq> None) (listLedgerEntries_spec s rid cf))
   \<and> mset (listLedgerEntries_spec s rid cf) = mset (selectedEntries s rid cf)
   \<and> sorted_wrt (\<lambda>a b. points a \<ge> points b) (listLedgerEntries_spec s rid cf)
   \<and> (\<forall>k. filter (\<lambda>pr. points pr = k) (listLedgerEntries_spec s rid cf) =
            filter (\<lambda>pr. points pr = k) (selectedEntries s rid cf))"
proof -
  have stable: "filter (\<lambda>pr. points pr = k) (listLedgerEntries_spec s rid cf) =
      filter (\<lambda>pr. points pr = k) (selectedEntries s rid cf)" for k
    using sort_key_stable [of "\<lambda>pr. - points pr" "- k" "selectedEntries s rid cf"]
    by (simp add: listLedgerEntries_spec_def)
  have listing: "getRankingPlayers s rid (map_option categoryName cf) =
     List.map_filter
       (\<lambda>(i, pr). map_option (\<lambda>u. playerWithRanking u pr (i + 1)) (users s (playerId pr)))
       (enumerate 0 (listLedgerEntries_spec s rid cf))"
    by (simp only: getRankingPlayers_ordered collectPlayers_eq append_Nil)
  have shown: "map shownEntry (getRankingPlayers s rid (map_option categoryName cf)) =
     map entryData
       (filter (\<lambda>pr. users s (playerId pr) \<noteq> None) (listLedgerEntries_spec s rid cf))"
    by (simp only: listing shown_map_filter)
  have same: "mset (listLedgerEntries_spec s rid cf) = mset (selectedEntries s rid cf)"
    by (simp add: listLedgerEntries_spec_def)
  have desc: "sorted_wrt (\<lambda>a b. points a \<ge> points b) (listLedgerEntries_spec s rid cf)"
    by (simp only: listLedgerEntries_spec_def sorted_descending)
  from listing shown same desc stable show ?thesis
    by blast
qed

theorem getRankingPlayers_listing_witness:
  "getRankingPlayers exampleStore 1 None =
     [playerWithRanking playerUser entry2 1, playerWithRanking adminUser entry1 3]
   \<and> getRankingPlayers exampleStore 1 (Some ''C'') = [playerWithRanking playerUser entry2 1]"
proof -
  have u: "users exampleStore (playerId entry1) = Some adminUser"
    "users exampleStore (playerId entry2) = Some playerUser"
    "users exampleStore (playerId entry3) = None"
    by (simp_all add: exampleStore_def entry1_def entry2_def entry3_def)
  from getRankingPlayers_listing [of exampleStore 1 None]
    getRankingPlayers_listing [of exampleStore 1 "Some CatC"]
  show ?thesis
    unfolding example_listing
    by (simp add: u numeral_3_eq_3)
qed

text \<open>
  The claim as stated, that exactly the ledger entries of the ranking are
  returned, fails after one request: the administrator records a win against
  player 7, who has no user record. The ledger then holds two entries for the
  ranking and the listing shows one.
\<close>

theorem getRankingPlayers_all_entries_counterexample:
  "map entryData (listLedgerEntries_spec storeAfterUnknownOpponent 1 None) =
     [(CatC, 10, 1, 0), (CatC, 0, 0, 1)]
   \<and> map shownEntry (getRankingPlayers storeAfterUnknownOpponent 1 None) = [(CatC, 10, 1, 0)]
   \<and> map shownEntry (getRankingPlayers storeAfterUnknownOpponent 1 None) \<noteq>
     map entryData (listLedgerEntries_spec storeAfterUnknownOpponent 1 None)"
proof -
  have l: "listLedgerEntries_spec storeAfterUnknownOpponent 1 None =
        [\<lparr>pr_id = 1, playerId = 1, pr_rankingId = 1, category = CatC,
            points = 10, wins = 1, losses = 0\<rparr>,
         \<lparr>pr_id = 2, playerId = 7, pr_rankingId = 1, category = CatC,
            points = 0, wins = 0, losses = 1\<rparr>]"
    by (simp add: listLedgerEntries_spec_def selectedEntries_def mapValues_def
        storeAfterUnknownOpponent_eq)
  have "getRankingPlayers storeAfterUnknownOpponent 1 None =
        collectPlayers (users storeAfterUnknownOpponent)
          (listLedgerEntries_spec storeAfterUnknownOpponent 1 None) 0 []"
    using getRankingPlayers_ordered [of storeAfterUnknownOpponent 1 None] by simp
  then show ?thesis
    by (simp add: l storeAfterUnknownOpponent_eq shownEntry_def entryData_def
        playerWithRanking_def)
qed

end
